theory Spec2Isabelle
  imports Main
begin

section \<open>JavaScript values\<close>

text \<open>
  The storage layer is written against \<^verbatim>\<open>any\<close>: \<^verbatim>\<open>secureStorage.setItem(key, value: any)\<close>
  and \<^verbatim>\<open>getItem\<close> hand JavaScript values through unchecked casts. The values that can
  travel through JSON are modelled by one datatype. Numbers are the integers (timestamps
  in milliseconds, counts); fractions and infinities are not represented, and NaN is the
  \<open>None\<close> of an \<open>int option\<close> where an arithmetic result can be NaN.
\<close>

datatype jsval =
    JUndefined
  | JNull
  | JBool bool
  | JNum int
  | JStr string
  | JArr "jsval list"
  | JObj "(string \<times> jsval) list"

text \<open>JavaScript truthiness: what \<^verbatim>\<open>if (v)\<close> and \<^verbatim>\<open>!v\<close> test.\<close>

fun truthy :: "jsval \<Rightarrow> bool" where
  "truthy JUndefined = False"
| "truthy JNull = False"
| "truthy (JBool b) = b"
| "truthy (JNum n) = (n \<noteq> 0)"
| "truthy (JStr s) = (s \<noteq> [])"
| "truthy (JArr xs) = True"
| "truthy (JObj kvs) = True"

text \<open>
  A property read \<^verbatim>\<open>v.k\<close>. On \<^verbatim>\<open>null\<close> and \<^verbatim>\<open>undefined\<close> JavaScript raises a TypeError;
  \<open>nullish\<close> tests for that case and every caller below either sits behind a truthiness
  test of \<open>v\<close> or branches on \<open>nullish\<close> first. Only named properties are read by the
  modelled code (never an array index).
\<close>

fun nullish :: "jsval \<Rightarrow> bool" where
  "nullish JUndefined = True"
| "nullish JNull = True"
| "nullish v = False"

fun js_get :: "jsval \<Rightarrow> string \<Rightarrow> jsval" where
  "js_get (JObj kvs) k = (case map_of kvs k of Some v \<Rightarrow> v | None \<Rightarrow> JUndefined)"
| "js_get (JArr xs) k = (if k = ''length'' then JNum (int (length xs)) else JUndefined)"
| "js_get (JStr s) k = (if k = ''length'' then JNum (int (length s)) else JUndefined)"
| "js_get v k = JUndefined"

section \<open>The platform: browser and library functions\<close>

text \<open>
  Everything the repository calls but does not define is a field of \<open>platform\<close>:
  CryptoJS (SHA256, AES), the engine's JSON and number conversion, jwt-decode, and the
  ways \<^verbatim>\<open>localStorage\<close> can throw. \<open>None\<close> stands for a thrown exception in the fields
  that return an option. The result of \<^verbatim>\<open>CryptoJS.AES.decrypt\<close> is a word array, of which
  the code reads \<^verbatim>\<open>sigBytes\<close> and \<^verbatim>\<open>toString(CryptoJS.enc.Utf8)\<close> (which throws on malformed
  UTF-8).
\<close>

datatype js_error = QuotaExceededError | OtherError

record wordArray =
  sigBytes :: int
  toUtf8 :: "string option"

type_synonym storage = "string \<Rightarrow> string option"

record platform =
  navigator_userAgent :: string
  navigator_language :: string
  screen_colorDepth :: string
  screen_width :: string
  screen_height :: string
  SHA256 :: "string \<Rightarrow> string option"
  AES_encrypt :: "string \<Rightarrow> string \<Rightarrow> string option"
  AES_decrypt :: "string \<Rightarrow> string \<Rightarrow> wordArray option"
  JSON_stringify :: "jsval \<Rightarrow> string"
  JSON_parse :: "string \<Rightarrow> jsval option"
  ToNumber :: "jsval \<Rightarrow> int option"
  jwtDecode :: "string \<Rightarrow> jsval option"
  setItem_throws :: "storage \<Rightarrow> string \<Rightarrow> string \<Rightarrow> js_error option"
  getItem_throws :: "storage \<Rightarrow> string \<Rightarrow> bool"
  removeItem_throws :: "storage \<Rightarrow> string \<Rightarrow> bool"

text \<open>
  \<^verbatim>\<open>localStorage\<close> is a finite map from keys to strings. A call that throws leaves the
  store as it was.
\<close>

definition ls_getItem :: "platform \<Rightarrow> storage \<Rightarrow> string \<Rightarrow> js_error + string option" where
  "ls_getItem P st k = (if getItem_throws P st k then Inl OtherError else Inr (st k))"

definition ls_setItem :: "platform \<Rightarrow> storage \<Rightarrow> string \<Rightarrow> string \<Rightarrow> js_error + storage" where
  "ls_setItem P st k v =
     (case setItem_throws P st k v of Some e \<Rightarrow> Inl e | None \<Rightarrow> Inr (st(k \<mapsto> v)))"

definition ls_removeItem :: "platform \<Rightarrow> storage \<Rightarrow> string \<Rightarrow> js_error + storage" where
  "ls_removeItem P st k = (if removeItem_throws P st k then Inl OtherError else Inr (st(k := None)))"

text \<open>
  \<^verbatim>\<open>JSON.stringify\<close> returns \<^verbatim>\<open>undefined\<close> for \<^verbatim>\<open>undefined\<close> and a string for every other
  value of \<open>jsval\<close>; \<^verbatim>\<open>localStorage.setItem(k, undefined)\<close> stores the text \<^verbatim>\<open>undefined\<close>.
  \<open>js_text\<close> is the string that \<^verbatim>\<open>localStorage.setItem(key, JSON.stringify(value))\<close> writes.
\<close>

definition js_text :: "platform \<Rightarrow> jsval \<Rightarrow> string" where
  "js_text P v = (case v of JUndefined \<Rightarrow> ''undefined'' | _ \<Rightarrow> JSON_stringify P v)"

text \<open>
  The number a value converts to in arithmetic and comparisons (\<open>None\<close> is NaN). Strings,
  arrays and objects convert through the engine.
\<close>

definition js_to_number :: "platform \<Rightarrow> jsval \<Rightarrow> int option" where
  "js_to_number P v =
     (case v of
        JUndefined \<Rightarrow> None
      | JNull \<Rightarrow> Some 0
      | JBool b \<Rightarrow> Some (if b then 1 else 0)
      | JNum n \<Rightarrow> Some n
      | _ \<Rightarrow> ToNumber P v)"

section \<open>secureStorage.ts\<close>

definition getEncryptionKey :: "platform \<Rightarrow> string option" where
  "getEncryptionKey P =
     SHA256 P (navigator_userAgent P @ ''|'' @ navigator_language P @ ''|'' @
               screen_colorDepth P @ ''|'' @ screen_width P @ ''x'' @ screen_height P)"

definition FALLBACK_KEY :: string where
  "FALLBACK_KEY = ''gBroadcast-20250608-default-secure-key''"

definition unencrypted_prefix :: string where
  "unencrypted_prefix = ''{\"_unencrypted\":true''"

definition startsWith :: "string \<Rightarrow> string \<Rightarrow> bool" where
  "startsWith s p = (take (length p) s = p)"

text \<open>
  \<^verbatim>\<open>encryptData\<close>: the empty string for a falsy value; otherwise the AES ciphertext of the
  JSON text under the fingerprint key (the fallback key when that is empty); when
  anything in that throws, the JSON text of the \<^verbatim>\<open>{_unencrypted: true, data}\<close> wrapper.
\<close>

definition encryptData :: "platform \<Rightarrow> jsval \<Rightarrow> string" where
  "encryptData P data =
     (if \<not> truthy data then []
      else
        (let unencrypted = JSON_stringify P (JObj [(''_unencrypted'', JBool True), (''data'', data)]);
             jsonString = JSON_stringify P data
         in case getEncryptionKey P of
              None \<Rightarrow> unencrypted
            | Some key0 \<Rightarrow>
                (let key = (if key0 = [] then FALLBACK_KEY else key0)
                 in case AES_encrypt P jsonString key of
                      None \<Rightarrow> unencrypted
                    | Some encrypted \<Rightarrow> encrypted)))"

text \<open>
  \<^verbatim>\<open>decryptData\<close>. \<open>decrypt_fallback\<close> is the body of the outer \<^verbatim>\<open>catch\<close>: a second attempt
  under the fallback key, with every failure ending in \<^verbatim>\<open>null\<close>.
\<close>

definition decrypt_fallback :: "platform \<Rightarrow> string \<Rightarrow> jsval" where
  "decrypt_fallback P encryptedData =
     (case AES_decrypt P encryptedData FALLBACK_KEY of
        None \<Rightarrow> JNull
      | Some decrypted \<Rightarrow>
          (case toUtf8 decrypted of
             None \<Rightarrow> JNull
           | Some jsonString \<Rightarrow>
               (if jsonString \<noteq> [] then
                  (case JSON_parse P jsonString of None \<Rightarrow> JNull | Some v \<Rightarrow> v)
                else JNull)))"

definition decryptData :: "platform \<Rightarrow> string \<Rightarrow> jsval" where
  "decryptData P encryptedData =
     (if encryptedData = [] then JNull
      else if startsWith encryptedData unencrypted_prefix then
        (case JSON_parse P encryptedData of
           None \<Rightarrow> JNull
         | Some parsed \<Rightarrow> (if nullish parsed then JNull else js_get parsed ''data''))
      else
        (case getEncryptionKey P of
           None \<Rightarrow> decrypt_fallback P encryptedData
         | Some key0 \<Rightarrow>
             (let key = (if key0 = [] then FALLBACK_KEY else key0)
              in case AES_decrypt P encryptedData key of
                   None \<Rightarrow> decrypt_fallback P encryptedData
                 | Some decrypted \<Rightarrow>
                     (if sigBytes decrypted \<le> 0 then JNull
                      else
                        (case toUtf8 decrypted of
                           None \<Rightarrow> decrypt_fallback P encryptedData
                         | Some jsonString \<Rightarrow>
                             (if jsonString = [] then JNull
                              else
                                (case JSON_parse P jsonString of
                                   None \<Rightarrow> decrypt_fallback P encryptedData
                                 | Some v \<Rightarrow> v)))))))"

text \<open>
  \<^verbatim>\<open>directStorage\<close>: plain JSON in \<^verbatim>\<open>localStorage\<close>, every exception swallowed.
\<close>

definition directStorage_setItem :: "platform \<Rightarrow> string \<Rightarrow> jsval \<Rightarrow> storage \<Rightarrow> storage" where
  "directStorage_setItem P key v st =
     (case ls_setItem P st key (js_text P v) of Inl e \<Rightarrow> st | Inr st' \<Rightarrow> st')"

definition directStorage_getItem :: "platform \<Rightarrow> storage \<Rightarrow> string \<Rightarrow> jsval" where
  "directStorage_getItem P st key =
     (case ls_getItem P st key of
        Inl e \<Rightarrow> JNull
      | Inr None \<Rightarrow> JNull
      | Inr (Some item) \<Rightarrow>
          (if item = [] then JNull
           else (case JSON_parse P item of None \<Rightarrow> JNull | Some v \<Rightarrow> v)))"

definition directStorage_removeItem :: "platform \<Rightarrow> string \<Rightarrow> storage \<Rightarrow> storage" where
  "directStorage_removeItem P key st =
     (case ls_removeItem P st key of Inl e \<Rightarrow> st | Inr st' \<Rightarrow> st')"

text \<open>
  \<^verbatim>\<open>secureStorage.removeItem\<close> and \<^verbatim>\<open>clearContactsData\<close> catch what \<^verbatim>\<open>localStorage.removeItem\<close>
  throws. The result of \<open>secureStorage_removeItem\<close> is a sum so that the callers'
  \<^verbatim>\<open>try\<close>/\<^verbatim>\<open>catch\<close> can be written as in the source; it is never \<open>Inl\<close>.
\<close>

definition secureStorage_removeItem :: "platform \<Rightarrow> string \<Rightarrow> storage \<Rightarrow> js_error + storage" where
  "secureStorage_removeItem P key st =
     (case ls_removeItem P st key of Inl e \<Rightarrow> Inr st | Inr st' \<Rightarrow> Inr st')"

definition contactKeys :: "string list" where
  "contactKeys = [''google_contacts'', ''google_contact_groups'', ''google_contacts_metadata'']"

definition clearContactsData :: "platform \<Rightarrow> storage \<Rightarrow> storage" where
  "clearContactsData P st =
     foldl (\<lambda>s key. case ls_removeItem P s key of Inl e \<Rightarrow> s | Inr s' \<Rightarrow> s') st contactKeys"

text \<open>
  \<^verbatim>\<open>secureStorage.setItem\<close>. \<open>setItem_recover\<close> is its \<^verbatim>\<open>catch\<close> block: store the value as
  plain JSON and, after a quota error, clear the contact keys. The \<^verbatim>\<open>try\<close> block writes the
  ciphertext, reads the key back and throws when the read-back is falsy.
\<close>

definition setItem_recover :: "platform \<Rightarrow> string \<Rightarrow> jsval \<Rightarrow> js_error \<Rightarrow> storage \<Rightarrow> storage" where
  "setItem_recover P key v err st =
     (let st1 = directStorage_setItem P key v st
      in if err = QuotaExceededError then clearContactsData P st1 else st1)"

definition secureStorage_setItem :: "platform \<Rightarrow> string \<Rightarrow> jsval \<Rightarrow> storage \<Rightarrow> storage" where
  "secureStorage_setItem P key v st =
     (let encrypted = encryptData P v
      in case ls_setItem P st key encrypted of
           Inl err \<Rightarrow> setItem_recover P key v err st
         | Inr st1 \<Rightarrow>
             (case ls_getItem P st1 key of
                Inl err \<Rightarrow> setItem_recover P key v err st1
              | Inr test \<Rightarrow>
                  (if test = None \<or> test = Some [] then setItem_recover P key v OtherError st1
                   else st1)))"

text \<open>
  \<^verbatim>\<open>secureStorage.getItem\<close>. \<^verbatim>\<open>decryptData\<close> and \<^verbatim>\<open>directStorage.getItem\<close> catch all their
  exceptions, so the only throw inside the \<^verbatim>\<open>try\<close> is the first \<^verbatim>\<open>localStorage.getItem\<close>,
  and the two inner \<^verbatim>\<open>catch\<close> blocks (which would remove the key) cannot run: the
  function does not change the store.
\<close>

definition secureStorage_getItem :: "platform \<Rightarrow> storage \<Rightarrow> string \<Rightarrow> jsval" where
  "secureStorage_getItem P st key =
     (case ls_getItem P st key of
        Inl e \<Rightarrow> directStorage_getItem P st key
      | Inr None \<Rightarrow> JNull
      | Inr (Some encrypted) \<Rightarrow>
          (if encrypted = [] then JNull
           else
             (let decrypted = decryptData P encrypted
              in if decrypted = JNull then directStorage_getItem P st key else decrypted)))"

section \<open>tokenUtils.ts\<close>

text \<open>
  \<^verbatim>\<open>getTokenExpiration\<close>. \<open>now\<close> is what \<^verbatim>\<open>Date.now()\<close> returns. \<^verbatim>\<open>jwtDecode\<close> throwing, and
  the TypeError of reading \<^verbatim>\<open>exp\<close> from a \<^verbatim>\<open>null\<close> payload, are caught and lead to the
  default of one hour from now; so does a falsy \<^verbatim>\<open>exp\<close>. The result is \<open>None\<close> when
  \<^verbatim>\<open>decoded.exp * 1000\<close> is NaN.
\<close>

definition getTokenExpiration :: "platform \<Rightarrow> int \<Rightarrow> string \<Rightarrow> int option" where
  "getTokenExpiration P now token =
     (case jwtDecode P token of
        None \<Rightarrow> Some (now + 3600 * 1000)
      | Some decoded \<Rightarrow>
          (if nullish decoded then Some (now + 3600 * 1000)
           else if truthy (js_get decoded ''exp'') then
             map_option (\<lambda>e. e * 1000) (js_to_number P (js_get decoded ''exp''))
           else Some (now + 3600 * 1000)))"

text \<open>
  \<^verbatim>\<open>new Date(t).toISOString()\<close> throws a RangeError unless \<open>t\<close> is a time value: a number
  of magnitude at most 8.64e15.
\<close>

definition valid_time :: "int \<Rightarrow> bool" where
  "valid_time t = (- 8640000000000000 \<le> t \<and> t \<le> 8640000000000000)"

text \<open>The object literals \<^verbatim>\<open>{token, refreshToken, expiresAt}\<close> and \<^verbatim>\<open>{token, expiresAt}\<close>.\<close>

definition tokenData :: "string \<Rightarrow> string option \<Rightarrow> int \<Rightarrow> jsval" where
  "tokenData token refreshToken expiresAt =
     JObj [(''token'', JStr token),
           (''refreshToken'', (case refreshToken of None \<Rightarrow> JUndefined | Some r \<Rightarrow> JStr r)),
           (''expiresAt'', JNum expiresAt)]"

definition simpleTokenData :: "string \<Rightarrow> int \<Rightarrow> jsval" where
  "simpleTokenData token expiresAt = JObj [(''token'', JStr token), (''expiresAt'', JNum expiresAt)]"

text \<open>
  \<^verbatim>\<open>storeTokens\<close>. The \<^verbatim>\<open>try\<close> block logs \<^verbatim>\<open>new Date(expiresAt).toISOString()\<close> before it
  stores, so an expiration that is NaN or not a time value sends control to the \<^verbatim>\<open>catch\<close>
  block, which stores the minimal bundle with the one-hour default. On every path the
  clock is read once.
\<close>

definition storeTokens :: "platform \<Rightarrow> int \<Rightarrow> string \<Rightarrow> string option \<Rightarrow> storage \<Rightarrow> storage" where
  "storeTokens P now token refreshToken st =
     (let fallback = secureStorage_setItem P ''auth_tokens'' (simpleTokenData token (now + 3600 * 1000)) st
      in case getTokenExpiration P now token of
           None \<Rightarrow> fallback
         | Some expiresAt \<Rightarrow>
             (if valid_time expiresAt then
                secureStorage_setItem P ''auth_tokens'' (tokenData token refreshToken expiresAt) st
              else fallback))"

definition getStoredTokens :: "platform \<Rightarrow> storage \<Rightarrow> jsval" where
  "getStoredTokens P st =
     (let td = secureStorage_getItem P st ''auth_tokens''
      in if \<not> truthy td \<or> \<not> truthy (js_get td ''token'') then JNull else td)"

text \<open>
  \<^verbatim>\<open>isTokenExpired(tokenData?)\<close>; an omitted argument is \<open>JUndefined\<close>. The comparison
  \<^verbatim>\<open>Date.now() + expirationBuffer >= tokenData.expiresAt\<close> is numeric, and false against NaN.
\<close>

definition isTokenExpired :: "platform \<Rightarrow> int \<Rightarrow> storage \<Rightarrow> jsval \<Rightarrow> bool" where
  "isTokenExpired P now st arg =
     (let td = (if \<not> truthy arg then getStoredTokens P st else arg)
      in if \<not> truthy td \<or> \<not> truthy (js_get td ''token'') then True
         else
           (let expirationBuffer = 5 * 60 * 1000
            in case js_to_number P (js_get td ''expiresAt'') of
                 None \<Rightarrow> False
               | Some expiresAt \<Rightarrow> now + expirationBuffer \<ge> expiresAt))"

definition clearTokens :: "platform \<Rightarrow> storage \<Rightarrow> js_error + storage" where
  "clearTokens P st =
     (case secureStorage_removeItem P ''auth_tokens'' st of
        Inr st' \<Rightarrow> Inr st'
      | Inl e \<Rightarrow> Inr (directStorage_removeItem P ''auth_tokens'' st))"

section \<open>AuthContext.tsx\<close>

record AuthTokens =
  access_token :: string
  refresh_token :: "string option"
  id_token :: "string option"
  expires_at :: int

record AuthState =
  user :: jsval
  tokens :: "AuthTokens option"
  isAuthenticated :: bool

text \<open>
  The provider's state: the \<^verbatim>\<open>authState\<close> and \<^verbatim>\<open>authError\<close> cells, the \<^verbatim>\<open>mountedRef\<close> flag,
  and the route last passed to \<^verbatim>\<open>navigate\<close>.
\<close>

record AuthProvider =
  authState :: AuthState
  authError :: "string option"
  mountedRef :: bool
  location :: string

text \<open>
  \<^verbatim>\<open>login(accessToken, userData)\<close>. \<open>now\<close> is the clock read inside \<^verbatim>\<open>storeTokens\<close>, \<open>now'\<close>
  the later read for \<^verbatim>\<open>expires_at\<close>. Nothing in the \<^verbatim>\<open>try\<close> block throws (the storage
  functions catch their own exceptions), so its \<^verbatim>\<open>catch\<close> does not appear.
\<close>

definition login ::
  "platform \<Rightarrow> int \<Rightarrow> int \<Rightarrow> string \<Rightarrow> jsval \<Rightarrow> storage \<times> AuthProvider \<Rightarrow> storage \<times> AuthProvider" where
  "login P now now' accessToken userData = (\<lambda>(st, s).
     if accessToken = [] then
       (st, if mountedRef s then s\<lparr>authError := Some ''Authentication failed: Missing access token''\<rparr> else s)
     else if \<not> truthy userData \<or> \<not> truthy (js_get userData ''email'') then
       (st, if mountedRef s then s\<lparr>authError := Some ''Authentication failed: Missing user information''\<rparr> else s)
     else
       (let st1 = secureStorage_setItem P ''user'' userData st;
            st2 = storeTokens P now accessToken None st1;
            s1 = (if mountedRef s then
                    s\<lparr>authState :=
                        \<lparr>user = userData,
                         tokens = Some \<lparr>access_token = accessToken, refresh_token = None,
                                        id_token = None, expires_at = now' + 3600 * 1000\<rparr>,
                         isAuthenticated = True\<rparr>,
                      authError := None\<rparr>
                  else s)
        in (st2, s1\<lparr>location := ''/''\<rparr>)))"

text \<open>
  \<^verbatim>\<open>logout()\<close>. The \<^verbatim>\<open>catch\<close> block only navigates; it is written out although neither
  \<open>secureStorage_removeItem\<close> nor \<open>clearTokens\<close> ever returns \<open>Inl\<close>.
\<close>

definition unauthenticated :: AuthState where
  "unauthenticated = \<lparr>user = JNull, tokens = None, isAuthenticated = False\<rparr>"

definition logout :: "platform \<Rightarrow> storage \<times> AuthProvider \<Rightarrow> storage \<times> AuthProvider" where
  "logout P = (\<lambda>(st, s).
     case secureStorage_removeItem P ''user'' st of
       Inl e \<Rightarrow> (st, s\<lparr>location := ''/login''\<rparr>)
     | Inr st1 \<Rightarrow>
         (case clearTokens P st1 of
            Inl e \<Rightarrow> (st1, s\<lparr>location := ''/login''\<rparr>)
          | Inr st2 \<Rightarrow>
              (let s1 = (if mountedRef s then s\<lparr>authState := unauthenticated\<rparr> else s)
               in (st2, s1\<lparr>location := ''/login''\<rparr>))))"

section \<open>types/contacts.ts\<close>

text \<open>
  The declared shapes of the People API data. A field the declaration marks optional, or
  that the code tests before reading it, is an option. Sub-records the modelled functions
  never read are reduced to the strings they carry.
\<close>

record ContactLabel =
  label_name :: string
  label_type :: "string option"

record ContactGroup =
  group_resourceName :: string
  updateTime :: string
  groupType :: string
  name :: string
  memberCount :: nat

record ContactOrganization =
  org_name :: "string option"
  title :: "string option"
  department :: "string option"
  org_primary :: "bool option"

record EmailAddress =
  email_value :: string
  email_type :: "string option"
  email_primary :: "bool option"

record ContactGroupMembership =
  contactGroupResourceName :: "string option"

record Membership =
  contactGroupMembership :: "ContactGroupMembership option"

record Contact =
  resourceName :: string
  names :: "string list option"
  photos :: "string list option"
  emailAddresses :: "EmailAddress list option"
  phoneNumbers :: "string list option"
  organizations :: "ContactOrganization list option"
  memberships :: "Membership list option"
  userDefined :: "(string \<times> string) list option"
  localUpdatedAt :: "int option"
  isDirty :: "bool option"

section \<open>useContactsStorage.ts: loading the cache\<close>

definition STORAGE_KEY_CONTACTS :: string where
  "STORAGE_KEY_CONTACTS = ''google_contacts''"

definition STORAGE_KEY_GROUPS :: string where
  "STORAGE_KEY_GROUPS = ''google_contact_groups''"

definition STORAGE_KEY_METADATA :: string where
  "STORAGE_KEY_METADATA = ''google_contacts_metadata''"

text \<open>
  The hook's \<^verbatim>\<open>useState\<close> cells that \<^verbatim>\<open>loadFromStorage\<close> writes. What comes back from
  \<^verbatim>\<open>secureStorage.getItem\<close> is cast, not checked, so the cells hold \<open>jsval\<close>.
\<close>

record ContactsHook =
  contacts :: jsval
  contactGroups :: jsval
  lastSyncTime :: jsval
  isLoading :: bool
  isInitialized :: bool
  error :: "string option"

text \<open>
  The test \<^verbatim>\<open>else if (localStorage.getItem(KEY))\<close> that follows a falsy decoded value: it
  can throw, and is true when the key holds a non-empty string.
\<close>

definition undecodable :: "platform \<Rightarrow> storage \<Rightarrow> string \<Rightarrow> jsval \<Rightarrow> js_error + bool" where
  "undecodable P st key stored =
     (if truthy stored then Inr False
      else (case ls_getItem P st key of
              Inl e \<Rightarrow> Inl e
            | Inr raw \<Rightarrow> Inr (raw \<noteq> None \<and> raw \<noteq> Some [])))"

text \<open>The \<^verbatim>\<open>catch\<close> block of \<^verbatim>\<open>loadFromStorage\<close>.\<close>

definition load_failed :: "platform \<Rightarrow> storage \<Rightarrow> ContactsHook \<Rightarrow> storage \<times> ContactsHook" where
  "load_failed P st h =
     (clearContactsData P st,
      h\<lparr>error := Some ''Failed to load contacts from local storage'', isLoading := False\<rparr>)"

definition loadFromStorage :: "platform \<Rightarrow> storage \<times> ContactsHook \<Rightarrow> storage \<times> ContactsHook" where
  "loadFromStorage P = (\<lambda>(st, h).
     (let storedContacts = secureStorage_getItem P st STORAGE_KEY_CONTACTS;
          h1 = (if truthy storedContacts then h\<lparr>contacts := storedContacts\<rparr> else h)
      in (case undecodable P st STORAGE_KEY_CONTACTS storedContacts of
            Inl e \<Rightarrow> load_failed P st h1
          | Inr c1 \<Rightarrow>
      (let storedGroups = secureStorage_getItem P st STORAGE_KEY_GROUPS;
           h2 = (if truthy storedGroups then h1\<lparr>contactGroups := storedGroups\<rparr> else h1)
       in (case undecodable P st STORAGE_KEY_GROUPS storedGroups of
             Inl e \<Rightarrow> load_failed P st h2
           | Inr c2 \<Rightarrow>
      (let metadata = secureStorage_getItem P st STORAGE_KEY_METADATA;
           h3 = (if truthy metadata then h2\<lparr>lastSyncTime := js_get metadata ''lastSyncTime''\<rparr> else h2)
       in (case undecodable P st STORAGE_KEY_METADATA metadata of
             Inl e \<Rightarrow> load_failed P st h3
           | Inr c3 \<Rightarrow>
      (let hasCorruptedData = (c1 \<or> c2 \<or> c3);
           st' = (if hasCorruptedData then clearContactsData P st else st);
           h4 = (if hasCorruptedData then
                   h3\<lparr>error := Some ''Some contact data was corrupted and has been cleared. Syncing from server...''\<rparr>
                 else h3);
           h5 = h4\<lparr>isInitialized := True\<rparr>;
           loaded = (truthy storedContacts \<and>
                     (case js_to_number P (js_get storedContacts ''length'') of
                        None \<Rightarrow> False
                      | Some n \<Rightarrow> n > 0))
       in (st', (if loaded then h5\<lparr>isLoading := False\<rparr> else h5))))))))))"

section \<open>useContactsStorage.ts: fetching all pages\<close>

text \<open>
  One page of \<^verbatim>\<open>people/me/connections\<close> as the loop reads it.
\<close>

record response =
  connections :: "Contact list option"
  nextPageToken :: "string option"
  totalItems :: "nat option"
  totalPeople :: "nat option"


text \<open>
  The loop's variables, the \<^verbatim>\<open>syncProgress\<close> cell, the world, and a log of every call of
  \<^verbatim>\<open>fetchWithToken\<close> with what it returned (\<open>pageToken\<close> is the source's local
  \<^verbatim>\<open>nextPageToken\<close>).
\<close>

record 'w fetch_state =
  allContacts :: "Contact list"
  pageToken :: "string option"
  pageCount :: nat
  totalEstimated :: nat
  syncProgress :: "(nat \<times> nat) option"
  world :: 'w
  exchanges :: "(string \<times> response option) list"






text \<open>
  The loop body up to \<^verbatim>\<open>nextPageToken = response.nextPageToken\<close>: it returns early when
  the component is unmounted, throws when the page is \<^verbatim>\<open>null\<close>, and otherwise has
  appended the page and updated the progress.
\<close>

datatype 'w page_outcome =
    Unmounted "'w fetch_state"
  | Failed "'w fetch_state"
  | Fetched "'w fetch_state"











section \<open>useContactsStorage.ts: labels\<close>

definition SYSTEM_GROUP_PREFIXES :: "string list" where
  "SYSTEM_GROUP_PREFIXES = [''contactGroups/myContacts'', ''contactGroups/starred'']"

text \<open>\<^verbatim>\<open>s.split('/')\<close>: never the empty list.\<close>

fun split_slash :: "string \<Rightarrow> string list" where
  "split_slash [] = [[]]"
| "split_slash (c # cs) =
     (if c = CHR ''/'' then [] # split_slash cs
      else (case split_slash cs of [] \<Rightarrow> [[c]] | w # ws \<Rightarrow> (c # w) # ws))"

text \<open>
  The template literal \<^verbatim>\<open>`Group ${groupResourceName.split('/')[1]}`\<close>: a missing second
  part prints as \<^verbatim>\<open>undefined\<close>.
\<close>

definition group_fallback_name :: "string \<Rightarrow> string" where
  "group_fallback_name groupResourceName =
     (let parts = split_slash groupResourceName
      in ''Group '' @ (if 1 < length parts then parts ! 1 else ''undefined''))"

definition is_system_group :: "string \<Rightarrow> bool" where
  "is_system_group groupResourceName =
     list_ex (\<lambda>prefix. startsWith groupResourceName prefix) SYSTEM_GROUP_PREFIXES"

text \<open>
  The label pushed for a membership that passed both tests. \<open>groups\<close> is the hook's
  \<^verbatim>\<open>contactGroups\<close> record read at its declared type, a map from resource names to groups.
\<close>

definition group_label :: "(string \<Rightarrow> ContactGroup option) \<Rightarrow> string \<Rightarrow> ContactLabel" where
  "group_label groups groupResourceName =
     (case groups groupResourceName of
        Some grp \<Rightarrow>
          \<lparr>label_name = (if name grp \<noteq> [] then name grp else group_fallback_name groupResourceName),
           label_type = Some ''group''\<rparr>
      | None \<Rightarrow>
          \<lparr>label_name = group_fallback_name groupResourceName, label_type = Some ''group''\<rparr>)"

text \<open>The \<^verbatim>\<open>for ... of\<close> loop over the memberships, \<open>labels\<close> being the array pushed to.\<close>

fun labels_loop ::
  "(string \<Rightarrow> ContactGroup option) \<Rightarrow> Membership list \<Rightarrow> ContactLabel list \<Rightarrow> ContactLabel list" where
  "labels_loop groups [] labels = labels"
| "labels_loop groups (membership # rest) labels =
     (case contactGroupMembership membership of
        None \<Rightarrow> labels_loop groups rest labels
      | Some m \<Rightarrow>
          (case contactGroupResourceName m of
             None \<Rightarrow> labels_loop groups rest labels
           | Some groupResourceName \<Rightarrow>
               (if groupResourceName = [] then labels_loop groups rest labels
                else if is_system_group groupResourceName then labels_loop groups rest labels
                else labels_loop groups rest (labels @ [group_label groups groupResourceName]))))"

definition getContactLabels :: "(string \<Rightarrow> ContactGroup option) \<Rightarrow> Contact \<Rightarrow> ContactLabel list" where
  "getContactLabels groups contact =
     (case memberships contact of
        None \<Rightarrow> []
      | Some ms \<Rightarrow> labels_loop groups ms [])"

text \<open>
  The labels as the specification describes them: a membership gives no label when its
  \<^verbatim>\<open>contactGroupMembership\<close> or the \<^verbatim>\<open>contactGroupResourceName\<close> in it is missing (absent
  or empty), or when the resource name starts with \<^verbatim>\<open>contactGroups/myContacts\<close> or
  \<^verbatim>\<open>contactGroups/starred\<close>; every other membership gives the one label of its group.
\<close>

definition spec_label :: "(string \<Rightarrow> ContactGroup option) \<Rightarrow> Membership \<Rightarrow> ContactLabel option" where
  "spec_label groups m =
     (case contactGroupMembership m of
        None \<Rightarrow> None
      | Some g \<Rightarrow>
          (case contactGroupResourceName g of
             None \<Rightarrow> None
           | Some n \<Rightarrow>
               (if n = [] then None
                else if startsWith n ''contactGroups/myContacts'' then None
                else if startsWith n ''contactGroups/starred'' then None
                else Some (group_label groups n))))"

definition membership_list :: "Contact \<Rightarrow> Membership list" where
  "membership_list contact = (case memberships contact of None \<Rightarrow> [] | Some ms \<Rightarrow> ms)"

section \<open>Test doubles\<close>

text \<open>
  A platform for concrete runs, in the manner of a unit test's mocks. The fingerprint is
  fixed; the hash tags its input; the cipher prepends a marker and the key, and decrypts
  to zero bytes whatever does not start with them (as CryptoJS does for texts shorter
  than one cipher block). \<open>sim_stringify\<close> prints JSON without escapes; \<open>sim_parse\<close> inverts
  it on the documents listed in \<open>sim_documents\<close> and reports a syntax error on every other
  text. Nothing throws, and \<open>sim_jwtDecode\<close> knows two tokens.
\<close>

definition digit_char :: "nat \<Rightarrow> char" where
  "digit_char d = ''0123456789'' ! d"

fun string_of_nat :: "nat \<Rightarrow> string" where
  "string_of_nat n =
     (if n < 10 then [digit_char n]
      else string_of_nat (n div 10) @ [digit_char (n mod 10)])"

definition string_of_int :: "int \<Rightarrow> string" where
  "string_of_int i =
     (if i < 0 then CHR ''-'' # string_of_nat (nat (- i)) else string_of_nat (nat i))"

definition quote :: "string \<Rightarrow> string" where
  "quote s = CHR 0x22 # s @ [CHR 0x22]"

fun join_comma :: "string list \<Rightarrow> string" where
  "join_comma [] = []"
| "join_comma [x] = x"
| "join_comma (x # y # ys) = x @ CHR '','' # join_comma (y # ys)"

primrec sim_stringify :: "jsval \<Rightarrow> string" where
  "sim_stringify JUndefined = []"
| "sim_stringify JNull = ''null''"
| "sim_stringify (JBool b) = (if b then ''true'' else ''false'')"
| "sim_stringify (JNum n) = string_of_int n"
| "sim_stringify (JStr s) = quote s"
| "sim_stringify (JArr xs) =
     ''['' @ join_comma (map (\<lambda>t. if t = [] then ''null'' else t) (map sim_stringify xs)) @ '']''"
| "sim_stringify (JObj kvs) =
     ''{'' @ join_comma (map (\<lambda>(k, t). quote k @ '':'' @ t)
                           (filter (\<lambda>(k, t). t \<noteq> []) (map (map_prod id sim_stringify) kvs))) @ ''}''"

definition sim_documents :: "jsval list" where
  "sim_documents =
     [JNull, JBool False, JBool True, JNum 0, JNum 1, JStr [],
      simpleTokenData ''ya29.a0AfH6'' 3601000,
      simpleTokenData [] 3601000,
      JObj [(''lastSyncTime'', JNum 1000), (''totalCount'', JNum 1), (''version'', JNum 1)],
      JArr [JObj [(''resourceName'', JStr ''people/c1'')]]]"

definition sim_parse :: "string \<Rightarrow> jsval option" where
  "sim_parse s = find (\<lambda>v. sim_stringify v = s) sim_documents"

definition sim_marker :: string where
  "sim_marker = ''U2FsdGVkX1''"

definition sim_encrypt :: "string \<Rightarrow> string \<Rightarrow> string option" where
  "sim_encrypt message key = Some (sim_marker @ key @ message)"

definition sim_decrypt :: "string \<Rightarrow> string \<Rightarrow> wordArray option" where
  "sim_decrypt ciphertext key =
     (let header = sim_marker @ key
      in if startsWith ciphertext header then
           Some \<lparr>sigBytes = int (length ciphertext) - int (length header),
                 toUtf8 = Some (drop (length header) ciphertext)\<rparr>
         else Some \<lparr>sigBytes = 0, toUtf8 = Some []\<rparr>)"

definition sim_jwtDecode :: "string \<Rightarrow> jsval option" where
  "sim_jwtDecode token =
     (if token = ''jwt.exp.sig'' then Some (JObj [(''sub'', JStr ''u1''), (''exp'', JNum 1700000000)])
      else if token = ''jwt.noexp.sig'' then Some (JObj [(''sub'', JStr ''u1'')])
      else None)"

definition sim :: platform where
  "sim =
     \<lparr>navigator_userAgent = ''Mozilla/5.0'',
      navigator_language = ''en-US'',
      screen_colorDepth = ''24'',
      screen_width = ''1920'',
      screen_height = ''1080'',
      SHA256 = (\<lambda>s. Some (''sha256:'' @ s)),
      AES_encrypt = sim_encrypt,
      AES_decrypt = sim_decrypt,
      JSON_stringify = sim_stringify,
      JSON_parse = sim_parse,
      ToNumber = (\<lambda>v. None),
      jwtDecode = sim_jwtDecode,
      setItem_throws = (\<lambda>st k v. None),
      getItem_throws = (\<lambda>st k. False),
      removeItem_throws = (\<lambda>st k. False)\<rparr>"

text \<open>The same platform with every \<^verbatim>\<open>localStorage.removeItem\<close> made to throw.\<close>

definition sim_removal_throws :: platform where
  "sim_removal_throws = sim\<lparr>removeItem_throws := (\<lambda>st k. True)\<rparr>"

text \<open>
  Simulated contacts APIs. The world counts the calls served; the component stays
  mounted; tokens are made of unreserved characters, which \<^verbatim>\<open>encodeURIComponent\<close> leaves
  alone. \<open>sim_three_pages\<close> serves pages of 2000, 2000 and 500 contacts, the last without a
  token; \<open>sim_endless\<close> answers every request with one contact and a token.
\<close>

definition sim_contact :: Contact where
  "sim_contact =
     \<lparr>resourceName = ''people/c1'', names = Some [''Ada''], photos = None,
      emailAddresses = Some [\<lparr>email_value = ''ada@example.org'', email_type = None, email_primary = None\<rparr>],
      phoneNumbers = None, organizations = None, memberships = None, userDefined = None,
      localUpdatedAt = None, isDirty = None\<rparr>"






text \<open>A user record and two provider states, signed out and signed in.\<close>

definition sim_user :: jsval where
  "sim_user =
     JObj [(''id'', JStr ''u1''), (''name'', JStr ''Ada''),
           (''email'', JStr ''ada@example.org''), (''picture'', JStr [])]"

definition signed_out :: AuthProvider where
  "signed_out =
     \<lparr>authState = unauthenticated, authError = None, mountedRef = True, location = ''/login''\<rparr>"

definition signed_in :: AuthProvider where
  "signed_in =
     \<lparr>authState = \<lparr>user = sim_user,
                   tokens = Some \<lparr>access_token = ''ya29.a0AfH6'', refresh_token = None,
                                  id_token = None, expires_at = 3601000\<rparr>,
                   isAuthenticated = True\<rparr>,
      authError = None, mountedRef = True, location = ''/''\<rparr>"


text \<open>
  A store whose contacts key holds a well-formed encrypted list of one contact and whose
  groups key holds garbage.
\<close>

definition sim_partial_store :: storage where
  "sim_partial_store =
     [''google_contacts'' \<mapsto>
        sim_marker @ ''sha256:Mozilla/5.0|en-US|24|1920x1080'' @
        ''[{\"resourceName\":\"people/c1\"}]'',
      ''google_contact_groups'' \<mapsto> ''%%%'']"

definition sim_hook :: ContactsHook where
  "sim_hook =
     \<lparr>contacts = JArr [], contactGroups = JObj [], lastSyncTime = JNull,
      isLoading = True, isInitialized = False, error = None\<rparr>"

text \<open>
  A contact in two system groups and two user groups (one of them known to the hook),
  with two memberships that lack the group reference.
\<close>

definition member_of :: "string \<Rightarrow> Membership" where
  "member_of n = \<lparr>contactGroupMembership = Some \<lparr>contactGroupResourceName = Some n\<rparr>\<rparr>"

definition sim_member :: Contact where
  "sim_member = sim_contact\<lparr>memberships :=
     Some [member_of ''contactGroups/myContacts'',
           \<lparr>contactGroupMembership = None\<rparr>,
           member_of ''contactGroups/4a1b'',
           \<lparr>contactGroupMembership = Some \<lparr>contactGroupResourceName = None\<rparr>\<rparr>,
           member_of ''contactGroups/starred'',
           member_of ''contactGroups/77'']\<rparr>"

definition sim_groups :: "string \<Rightarrow> ContactGroup option" where
  "sim_groups =
     [''contactGroups/4a1b'' \<mapsto>
        \<lparr>group_resourceName = ''contactGroups/4a1b'', updateTime = ''2025-06-08T00:00:00Z'',
         groupType = ''USER_CONTACT_GROUP'', name = ''Friends'', memberCount = 3\<rparr>]"

section \<open>The storage layer: what is written and what is read back\<close>

lemma encryptData_falsy: "\<not> truthy v \<Longrightarrow> encryptData P v = []"
  by (simp add: encryptData_def)

lemma encryptData_ciphertext:
  assumes "truthy v"
    and "getEncryptionKey P = Some fkey"
    and "AES_encrypt P (JSON_stringify P v) (if fkey = [] then FALLBACK_KEY else fkey) = Some c"
  shows "encryptData P v = c"
  using assms by (simp add: encryptData_def Let_def)

lemma decryptData_plaintext:
  assumes "c \<noteq> []" and "\<not> startsWith c unencrypted_prefix"
    and "getEncryptionKey P = Some fkey"
    and "AES_decrypt P c (if fkey = [] then FALLBACK_KEY else fkey) = Some w"
    and "0 < sigBytes w" and "toUtf8 w = Some plain" and "plain \<noteq> []"
    and "JSON_parse P plain = Some parsed"
  shows "decryptData P c = parsed"
  using assms by (simp add: decryptData_def Let_def)

lemma secureStorage_setItem_stored:
  assumes "encryptData P v = c" and "c \<noteq> []"
    and "setItem_throws P st key c = None"
    and "\<not> getItem_throws P (st(key \<mapsto> c)) key"
  shows "secureStorage_setItem P key v st = st(key \<mapsto> c)"
  using assms by (simp add: secureStorage_setItem_def ls_setItem_def ls_getItem_def)

lemma secureStorage_getItem_decrypted:
  assumes "st key = Some c" and "c \<noteq> []" and "\<not> getItem_throws P st key"
    and "decryptData P c = v" and "v \<noteq> JNull"
  shows "secureStorage_getItem P st key = v"
  using assms by (simp add: secureStorage_getItem_def ls_getItem_def)

lemma secureStorage_getItem_plain:
  assumes "st key = Some raw" and "raw \<noteq> []" and "\<not> getItem_throws P st key"
    and "decryptData P raw = JNull"
  shows "secureStorage_getItem P st key = (case JSON_parse P raw of None \<Rightarrow> JNull | Some w \<Rightarrow> w)"
  using assms by (simp add: secureStorage_getItem_def directStorage_getItem_def ls_getItem_def)

lemma sim_key: "getEncryptionKey sim = Some ''sha256:Mozilla/5.0|en-US|24|1920x1080''"
  by (simp add: getEncryptionKey_def sim_def)

lemma sim_bundle_text:
  "JSON_stringify sim (tokenData ''ya29.a0AfH6'' None 3601000) =
     ''{\"token\":\"ya29.a0AfH6\",\"expiresAt\":3601000}''"
  by (simp add: sim_def tokenData_def quote_def string_of_int_def digit_char_def)

lemma sim_bundle_parse:
  "JSON_parse sim ''{\"token\":\"ya29.a0AfH6\",\"expiresAt\":3601000}'' =
     Some (simpleTokenData ''ya29.a0AfH6'' 3601000)"
  by (simp add: sim_def sim_parse_def sim_documents_def simpleTokenData_def quote_def
      string_of_int_def digit_char_def)

lemma secureStorage_setItem_falsy:
  assumes "\<not> truthy v"
    and "setItem_throws P st key [] = None"
    and "setItem_throws P (st(key \<mapsto> [])) key (js_text P v) = None"
    and "\<not> getItem_throws P (st(key \<mapsto> [])) key"
  shows "secureStorage_setItem P key v st = st(key \<mapsto> js_text P v)"
  using assms
  by (simp add: secureStorage_setItem_def encryptData_falsy ls_setItem_def ls_getItem_def
      setItem_recover_def directStorage_setItem_def)

lemma secureStorage_getItem_undecodable:
  assumes "\<not> getItem_throws P st key"
    and "st key = Some raw" and "raw \<noteq> []"
    and "decryptData P raw = JNull" and "JSON_parse P raw = None"
  shows "secureStorage_getItem P st key = JNull"
  using assms by (simp add: secureStorage_getItem_plain)

lemma undecodable_no_throw:
  assumes "\<And>s k. \<not> getItem_throws P s k"
  shows "undecodable P st key v = Inr (\<not> truthy v \<and> st key \<noteq> None \<and> st key \<noteq> Some [])"
  using assms by (simp add: undecodable_def ls_getItem_def)

lemma clearContactsData_no_throw:
  assumes "\<And>s k. \<not> removeItem_throws P s k"
  shows "clearContactsData P st =
           st(''google_contacts'' := None, ''google_contact_groups'' := None,
              ''google_contacts_metadata'' := None)"
  using assms by (simp add: clearContactsData_def contactKeys_def ls_removeItem_def)



lemma startsWith_longer: "length s < length p \<Longrightarrow> \<not> startsWith s p"
proof
  assume short: "length s < length p" and "startsWith s p"
  then have "take (length p) s = p" by (simp add: startsWith_def)
  then have "length (take (length p) s) = length p" by simp
  with short show False by simp
qed

lemma sim_no_throw:
  "setItem_throws sim st k v = None" "\<not> getItem_throws sim st k" "\<not> removeItem_throws sim st k"
  by (simp_all add: sim_def)

lemma sim_text_zero: "js_text sim (JNum 0) = ''0''"
  by (simp add: js_text_def sim_def string_of_int_def digit_char_def)

lemma sim_parse_zero: "JSON_parse sim ''0'' = Some (JNum 0)"
  by (simp add: sim_def sim_parse_def sim_documents_def string_of_int_def digit_char_def)

lemma sim_parse_garbage: "JSON_parse sim ''%%%'' = None"
  by (simp add: sim_def sim_parse_def sim_documents_def simpleTokenData_def quote_def
      string_of_int_def digit_char_def)

lemma sim_decrypt_short:
  assumes "raw \<noteq> []" and "length raw < 10"
  shows "decryptData sim raw = JNull"
proof -
  have "\<not> startsWith raw unencrypted_prefix"
    using assms(2) by (intro startsWith_longer) (simp add: unencrypted_prefix_def)
  moreover have "\<not> startsWith raw (sim_marker @ ''sha256:Mozilla/5.0|en-US|24|1920x1080'')"
    using assms(2) by (intro startsWith_longer) (simp add: sim_marker_def)
  moreover have "AES_decrypt sim = sim_decrypt"
    by (simp add: sim_def)
  ultimately show ?thesis
    using assms(1) by (simp add: decryptData_def sim_key sim_decrypt_def Let_def)
qed

text \<open>
  C10, as the code has it. For every key and every falsy value, \<^verbatim>\<open>encryptData\<close> returns
  the empty string, but \<^verbatim>\<open>secureStorage.setItem\<close> does not leave it stored: the read-back
  check fails on the empty string and the \<^verbatim>\<open>catch\<close> block stores the plain JSON text of
  the value (the text \<^verbatim>\<open>undefined\<close> for \<^verbatim>\<open>undefined\<close>). When that text is not empty and
  does not decrypt, a following \<^verbatim>\<open>getItem\<close> returns what the text parses to, and
  \<^verbatim>\<open>null\<close> when it does not parse. (The storage calls involved are assumed not to
  throw.)
\<close>

theorem secureStorage_falsy_value:
  assumes falsy: "\<not> truthy v"
    and writes: "setItem_throws P st key [] = None"
                "setItem_throws P (st(key \<mapsto> [])) key (js_text P v) = None"
    and reads: "\<not> getItem_throws P (st(key \<mapsto> [])) key"
               "\<not> getItem_throws P (st(key \<mapsto> js_text P v)) key"
    and plain: "js_text P v \<noteq> []" "decryptData P (js_text P v) = JNull"
  shows "encryptData P v = [] \<and>
         secureStorage_setItem P key v st = st(key \<mapsto> js_text P v) \<and>
         secureStorage_getItem P (secureStorage_setItem P key v st) key
           = (case JSON_parse P (js_text P v) of None \<Rightarrow> JNull | Some w \<Rightarrow> w)"
proof -
  have enc: "encryptData P v = []"
    using falsy by (rule encryptData_falsy)
  have stored: "secureStorage_setItem P key v st = st(key \<mapsto> js_text P v)"
    using falsy writes reads(1) by (rule secureStorage_setItem_falsy)
  have "secureStorage_getItem P (st(key \<mapsto> js_text P v)) key
          = (case JSON_parse P (js_text P v) of None \<Rightarrow> JNull | Some w \<Rightarrow> w)"
    using plain reads(2) by (intro secureStorage_getItem_plain) simp_all
  then show ?thesis using enc stored by simp
qed

theorem secureStorage_falsy_value_witness:
  "secureStorage_setItem sim ''user_pref_theme'' (JNum 0) Map.empty
     = [''user_pref_theme'' \<mapsto> ''0''] \<and>
   secureStorage_setItem sim ''user_pref_theme'' JUndefined Map.empty
     = [''user_pref_theme'' \<mapsto> ''undefined''] \<and>
   map (\<lambda>v. secureStorage_getItem sim (secureStorage_setItem sim ''user_pref_theme'' v Map.empty)
               ''user_pref_theme'')
       [JNum 0, JStr [], JBool False, JNull, JUndefined]
     = [JNum 0, JStr [], JBool False, JNull, JNull]"
proof -
  have texts: "js_text sim (JNum 0) = ''0''" "js_text sim (JStr []) = [CHR 0x22, CHR 0x22]"
    "js_text sim (JBool False) = ''false''" "js_text sim JNull = ''null''"
    "js_text sim JUndefined = ''undefined''"
    by (simp_all add: js_text_def sim_def string_of_int_def digit_char_def quote_def)
  have parses: "JSON_parse sim ''0'' = Some (JNum 0)"
    "JSON_parse sim [CHR 0x22, CHR 0x22] = Some (JStr [])"
    "JSON_parse sim ''false'' = Some (JBool False)" "JSON_parse sim ''null'' = Some JNull"
    "JSON_parse sim ''undefined'' = None"
    by (simp_all add: sim_def sim_parse_def sim_documents_def simpleTokenData_def quote_def
        string_of_int_def digit_char_def)
  have run: "secureStorage_setItem sim ''user_pref_theme'' v Map.empty
               = [''user_pref_theme'' \<mapsto> js_text sim v] \<and>
             secureStorage_getItem sim [''user_pref_theme'' \<mapsto> js_text sim v] ''user_pref_theme''
               = (case JSON_parse sim (js_text sim v) of None \<Rightarrow> JNull | Some w \<Rightarrow> w)"
    if "\<not> truthy v" and "js_text sim v \<noteq> []" and "length (js_text sim v) < 10" for v
    using secureStorage_falsy_value [of v sim Map.empty "''user_pref_theme''"] that
    by (auto simp: sim_no_throw sim_decrypt_short)
  show ?thesis
    using run [of "JNum 0"] run [of "JStr []"] run [of "JBool False"] run [of JNull]
      run [of JUndefined]
    by (simp add: texts parses)
qed

text \<open>
  Storing the number 0: afterwards the key holds the text \<^verbatim>\<open>0\<close>, not the empty string, and
  \<^verbatim>\<open>getItem\<close> returns 0, not \<^verbatim>\<open>null\<close>.
\<close>

theorem secureStorage_falsy_value_counterexample:
  "secureStorage_setItem sim ''user_pref_theme'' (JNum 0) Map.empty ''user_pref_theme'' = Some ''0'' \<and>
   secureStorage_getItem sim (secureStorage_setItem sim ''user_pref_theme'' (JNum 0) Map.empty)
     ''user_pref_theme'' = JNum 0"
proof -
  have stored: "secureStorage_setItem sim ''user_pref_theme'' (JNum 0) Map.empty
                  = [''user_pref_theme'' \<mapsto> ''0'']"
    by (simp add: secureStorage_setItem_falsy sim_no_throw sim_text_zero)
  have "decryptData sim ''0'' = JNull"
    by (rule sim_decrypt_short) simp_all
  then have "secureStorage_getItem sim [''user_pref_theme'' \<mapsto> ''0''] ''user_pref_theme'' = JNum 0"
    by (simp add: secureStorage_getItem_plain sim_no_throw sim_parse_zero)
  with stored show ?thesis by simp
qed

section \<open>Token lifecycle\<close>

text \<open>
  C9. A token that \<^verbatim>\<open>jwtDecode\<close> rejects, or whose decoded payload has no \<^verbatim>\<open>exp\<close> property,
  gets an expiration inside the interval from \<open>now\<close> to one hour after \<open>now\<close>, \<open>now\<close> being
  the clock at the call. (The value is the upper end of the interval.)
\<close>

theorem getTokenExpiration_without_exp:
  assumes "jwtDecode P token = None \<or>
           (\<exists>decoded. jwtDecode P token = Some decoded \<and> js_get decoded ''exp'' = JUndefined)"
  shows "\<exists>t. getTokenExpiration P now token = Some t \<and> now \<le> t \<and> t \<le> now + 3600 * 1000"
  using assms by (auto simp: getTokenExpiration_def)

theorem getTokenExpiration_without_exp_witness:
  "jwtDecode sim ''ya29.a0AfH6'' = None \<and>
   getTokenExpiration sim 1000 ''ya29.a0AfH6'' = Some 3601000 \<and>
   (\<exists>d. jwtDecode sim ''jwt.noexp.sig'' = Some d \<and> js_get d ''exp'' = JUndefined) \<and>
   (\<exists>t. getTokenExpiration sim 1000 ''jwt.noexp.sig'' = Some t \<and> 1000 \<le> t \<and> t \<le> 1000 + 3600 * 1000)"
proof -
  have no_exp: "\<exists>d. jwtDecode sim ''jwt.noexp.sig'' = Some d \<and> js_get d ''exp'' = JUndefined"
    by (simp add: sim_def sim_jwtDecode_def)
  have opaque: "jwtDecode sim ''ya29.a0AfH6'' = None"
    by (simp add: sim_def sim_jwtDecode_def)
  have "getTokenExpiration sim 1000 ''ya29.a0AfH6'' = Some 3601000"
    using getTokenExpiration_without_exp [of sim "''ya29.a0AfH6''" 1000] opaque
    by (simp add: getTokenExpiration_def)
  moreover have "\<exists>t. getTokenExpiration sim 1000 ''jwt.noexp.sig'' = Some t \<and> 1000 \<le> t \<and> t \<le> 1000 + 3600 * 1000"
    using getTokenExpiration_without_exp [of sim "''jwt.noexp.sig''" 1000] no_exp by simp
  ultimately show ?thesis using no_exp opaque by simp
qed

text \<open>
  C3, as the code has it. For any bundle passed to \<^verbatim>\<open>isTokenExpired\<close> (a truthy value
  whose \<^verbatim>\<open>token\<close> is a string and whose \<^verbatim>\<open>expiresAt\<close> is a number), the result is true
  exactly when the token is empty or \<open>now\<close> plus five minutes is at or past the bundle's
  \<^verbatim>\<open>expiresAt\<close>. So for a non-empty token the result is the comparison of times, and a
  bundle whose token is empty is reported expired whatever its expiry: the guard
  \<^verbatim>\<open>!tokenData.token\<close> comes first.
\<close>

theorem isTokenExpired_bundle:
  assumes "truthy td"
    and "js_get td ''token'' = JStr token"
    and "js_get td ''expiresAt'' = JNum expiresAt"
  shows "isTokenExpired P now st td = (token = [] \<or> now + 5 * 60 * 1000 \<ge> expiresAt)"
  using assms by (simp add: isTokenExpired_def js_to_number_def)

theorem isTokenExpired_bundle_witness:
  "isTokenExpired sim 1000 Map.empty (tokenData ''ya29.a0AfH6'' None 3601000) = False \<and>
   isTokenExpired sim 3301000 Map.empty (tokenData ''ya29.a0AfH6'' None 3601000) = True \<and>
   isTokenExpired sim 3300999 Map.empty (simpleTokenData ''ya29.a0AfH6'' 3601000) = False"
  using isTokenExpired_bundle [of "tokenData ''ya29.a0AfH6'' None 3601000" "''ya29.a0AfH6''"
          3601000 sim 1000 Map.empty]
        isTokenExpired_bundle [of "tokenData ''ya29.a0AfH6'' None 3601000" "''ya29.a0AfH6''"
          3601000 sim 3301000 Map.empty]
        isTokenExpired_bundle [of "simpleTokenData ''ya29.a0AfH6'' 3601000" "''ya29.a0AfH6''"
          3601000 sim 3300999 Map.empty]
  by (simp add: tokenData_def simpleTokenData_def)

text \<open>
  The bundle \<^verbatim>\<open>{token: '', expiresAt: 3601000}\<close> at time 1000: five minutes ahead is well
  before the expiry, and the result is true.
\<close>

theorem isTokenExpired_empty_token_counterexample:
  "isTokenExpired sim 1000 Map.empty (tokenData [] None 3601000) = True \<and>
   \<not> (1000 + 5 * 60 * 1000 \<ge> (3601000 :: int))"
  by (simp add: isTokenExpired_def tokenData_def getStoredTokens_def)

text \<open>
  C6, as the code has it. Take a non-empty token whose expiration \<open>e\<close>, computed by
  \<^verbatim>\<open>getTokenExpiration\<close> at store time, is a time value. Suppose the libraries round-trip
  the bundle: its JSON text parses to an object with the same \<^verbatim>\<open>token\<close> and \<^verbatim>\<open>expiresAt\<close>,
  and the ciphertext of that text under the storage key decrypts to the text. Suppose the
  write of the ciphertext and the read of the key do not throw. Then \<^verbatim>\<open>getStoredTokens\<close>
  after \<^verbatim>\<open>storeTokens\<close> returns a bundle whose \<^verbatim>\<open>token\<close> is the original and whose
  \<^verbatim>\<open>expiresAt\<close> is \<open>e\<close>.
\<close>

theorem storeTokens_getStoredTokens:
  assumes nonempty: "token \<noteq> []"
    and expiry: "getTokenExpiration P now token = Some e" "valid_time e"
    and key: "getEncryptionKey P = Some fkey" "key = (if fkey = [] then FALLBACK_KEY else fkey)"
    and json: "JSON_stringify P (tokenData token refreshToken e) = plain" "plain \<noteq> []"
    and parse: "JSON_parse P plain = Some parsed"
               "js_get parsed ''token'' = JStr token" "js_get parsed ''expiresAt'' = JNum e"
    and encrypt: "AES_encrypt P plain key = Some c" "c \<noteq> []" "\<not> startsWith c unencrypted_prefix"
    and decrypt: "AES_decrypt P c key = Some w" "0 < sigBytes w" "toUtf8 w = Some plain"
    and store_ok: "setItem_throws P st ''auth_tokens'' c = None"
    and load_ok: "\<not> getItem_throws P (st(''auth_tokens'' \<mapsto> c)) ''auth_tokens''"
  shows "js_get (getStoredTokens P (storeTokens P now token refreshToken st)) ''token'' = JStr token \<and>
         js_get (getStoredTokens P (storeTokens P now token refreshToken st)) ''expiresAt'' = JNum e"
proof -
  let ?td = "tokenData token refreshToken e"
  have "truthy ?td" by (simp add: tokenData_def)
  then have enc: "encryptData P ?td = c"
    using key json encrypt by (intro encryptData_ciphertext [where fkey = fkey]) simp_all
  have stored: "storeTokens P now token refreshToken st = st(''auth_tokens'' \<mapsto> c)"
    using expiry enc encrypt(2) store_ok load_ok
    by (simp add: storeTokens_def secureStorage_setItem_stored)
  have dec: "decryptData P c = parsed"
    using encrypt key decrypt json parse
    by (intro decryptData_plaintext [where fkey = fkey and w = w and plain = plain]) simp_all
  have "parsed \<noteq> JNull" using parse(2) by auto
  then have "secureStorage_getItem P (st(''auth_tokens'' \<mapsto> c)) ''auth_tokens'' = parsed"
    using dec encrypt(2) load_ok by (intro secureStorage_getItem_decrypted [where c = c]) simp_all
  moreover have "truthy parsed" using parse(2) by (cases parsed) auto
  moreover have "truthy (js_get parsed ''token'')" using parse(2) nonempty by simp
  ultimately have "getStoredTokens P (storeTokens P now token refreshToken st) = parsed"
    using stored by (simp add: getStoredTokens_def)
  then show ?thesis using parse by simp
qed

theorem storeTokens_getStoredTokens_witness:
  "getTokenExpiration sim 1000 ''ya29.a0AfH6'' = Some 3601000 \<and>
   js_get (getStoredTokens sim (storeTokens sim 1000 ''ya29.a0AfH6'' None Map.empty)) ''token''
     = JStr ''ya29.a0AfH6'' \<and>
   js_get (getStoredTokens sim (storeTokens sim 1000 ''ya29.a0AfH6'' None Map.empty)) ''expiresAt''
     = JNum 3601000"
proof -
  let ?plain = "''{\"token\":\"ya29.a0AfH6\",\"expiresAt\":3601000}''"
  let ?key = "''sha256:Mozilla/5.0|en-US|24|1920x1080''"
  let ?c = "sim_marker @ ?key @ ?plain"
  have expiry: "getTokenExpiration sim 1000 ''ya29.a0AfH6'' = Some 3601000"
    by (simp add: getTokenExpiration_def sim_def sim_jwtDecode_def)
  have "js_get (getStoredTokens sim (storeTokens sim 1000 ''ya29.a0AfH6'' None Map.empty)) ''token''
          = JStr ''ya29.a0AfH6'' \<and>
        js_get (getStoredTokens sim (storeTokens sim 1000 ''ya29.a0AfH6'' None Map.empty)) ''expiresAt''
          = JNum 3601000"
  proof (rule storeTokens_getStoredTokens [where fkey = ?key and key = ?key and plain = ?plain
            and parsed = "simpleTokenData ''ya29.a0AfH6'' 3601000" and c = ?c
            and w = "\<lparr>sigBytes = int (length ?plain), toUtf8 = Some ?plain\<rparr>"])
    show "getTokenExpiration sim 1000 ''ya29.a0AfH6'' = Some 3601000" by (rule expiry)
    show "valid_time 3601000" by (simp add: valid_time_def)
    show "getEncryptionKey sim = Some ?key" by (rule sim_key)
    show "JSON_stringify sim (tokenData ''ya29.a0AfH6'' None 3601000) = ?plain"
      by (rule sim_bundle_text)
    show "JSON_parse sim ?plain = Some (simpleTokenData ''ya29.a0AfH6'' 3601000)"
      by (rule sim_bundle_parse)
    show "AES_encrypt sim ?plain ?key = Some ?c" by (simp add: sim_def sim_encrypt_def)
    show "\<not> startsWith ?c unencrypted_prefix"
      by (simp add: startsWith_def unencrypted_prefix_def sim_marker_def)
    show "AES_decrypt sim ?c ?key = Some \<lparr>sigBytes = int (length ?plain), toUtf8 = Some ?plain\<rparr>"
      by (simp add: sim_def sim_decrypt_def startsWith_def sim_marker_def)
    show "setItem_throws sim Map.empty ''auth_tokens'' ?c = None" by (simp add: sim_def)
    show "\<not> getItem_throws sim (Map.empty(''auth_tokens'' \<mapsto> ?c)) ''auth_tokens''"
      by (simp add: sim_def)
  qed (simp_all add: simpleTokenData_def sim_marker_def)
  then show ?thesis using expiry by simp
qed

text \<open>
  The empty token: the bundle is written and decodes when read back from the store, and
  still \<^verbatim>\<open>getStoredTokens\<close> answers \<^verbatim>\<open>null\<close>, because it treats a bundle with a falsy
  \<^verbatim>\<open>token\<close> as absent.
\<close>

theorem storeTokens_empty_token_counterexample:
  "secureStorage_getItem sim (storeTokens sim 1000 [] None Map.empty) ''auth_tokens''
     = simpleTokenData [] 3601000 \<and>
   getStoredTokens sim (storeTokens sim 1000 [] None Map.empty) = JNull"
  by (simp add: getStoredTokens_def storeTokens_def sim_def getTokenExpiration_def sim_jwtDecode_def
      valid_time_def secureStorage_setItem_def secureStorage_getItem_def encryptData_def
      decryptData_def tokenData_def simpleTokenData_def getEncryptionKey_def sim_encrypt_def
      sim_decrypt_def sim_marker_def ls_setItem_def ls_getItem_def startsWith_def
      unencrypted_prefix_def quote_def string_of_int_def digit_char_def sim_parse_def
      sim_documents_def Let_def)

section \<open>Session context\<close>

text \<open>
  C5, as the code has it. For every user record, \<^verbatim>\<open>login\<close> with an empty access token
  leaves the store and the authentication state as they were (so it never moves to
  authenticated) and does not navigate; it sets the error message
  \<^verbatim>\<open>Authentication failed: Missing access token\<close> when \<^verbatim>\<open>mountedRef.current\<close> is true, and
  leaves the error as it was when it is false.
\<close>

theorem login_empty_token:
  "login P now now' [] userData (st, s) =
     (st, if mountedRef s
          then s\<lparr>authError := Some ''Authentication failed: Missing access token''\<rparr> else s)"
  by (simp add: login_def)

theorem login_empty_token_witness:
  "login sim 1000 1001 [] sim_user (Map.empty, signed_out) =
     (Map.empty, signed_out\<lparr>authError := Some ''Authentication failed: Missing access token''\<rparr>)"
  using login_empty_token [of sim 1000 1001 sim_user Map.empty signed_out]
  by (simp add: signed_out_def)

text \<open>
  With \<^verbatim>\<open>mountedRef.current\<close> false and no error set before, no error is set after.
\<close>

theorem login_empty_token_counterexample:
  "authError (snd (login sim 1000 1001 [] sim_user
                     (Map.empty, signed_out\<lparr>mountedRef := False\<rparr>))) = None"
  by (simp add: login_def signed_out_def)

text \<open>
  C4, as the code has it. On every platform, whether or not \<^verbatim>\<open>localStorage.removeItem\<close>
  throws, \<^verbatim>\<open>logout\<close> ends with the route \<^verbatim>\<open>/login\<close>; a call made while
  \<^verbatim>\<open>mountedRef.current\<close> is true ends with the authentication state
  \<^verbatim>\<open>{user: null, tokens: null, isAuthenticated: false}\<close>, and a call made while it is false
  leaves the authentication state as it was.
\<close>

theorem logout_transition:
  "authState (snd (logout P (st, s))) = (if mountedRef s then unauthenticated else authState s) \<and>
   location (snd (logout P (st, s))) = ''/login''"
  by (simp add: logout_def secureStorage_removeItem_def clearTokens_def split: sum.splits)

theorem logout_transition_witness:
  "mountedRef signed_in \<and>
   removeItem_throws sim_removal_throws Map.empty ''user'' \<and>
   authState (snd (logout sim_removal_throws (Map.empty, signed_in))) = unauthenticated \<and>
   location (snd (logout sim_removal_throws (Map.empty, signed_in))) = ''/login''"
  using logout_transition [of sim_removal_throws Map.empty signed_in]
  by (simp add: signed_in_def sim_removal_throws_def)

text \<open>
  With \<^verbatim>\<open>mountedRef.current\<close> false, a signed-in provider is still authenticated after
  \<^verbatim>\<open>logout\<close>, storage working normally.
\<close>

theorem logout_unmounted_counterexample:
  "isAuthenticated (authState (snd (logout sim (Map.empty, signed_in\<lparr>mountedRef := False\<rparr>))))"
  by (simp add: logout_def signed_in_def secureStorage_removeItem_def clearTokens_def
      ls_removeItem_def sim_def)

section \<open>Contacts cache\<close>





text \<open>
  What \<^verbatim>\<open>loadFromStorage\<close> has already put into the hook's cells stays there. With the
  groups key corrupted and the contacts key decodable, the store is purged while the
  \<^verbatim>\<open>contacts\<close> cell holds the decoded list and \<^verbatim>\<open>isLoading\<close> is false. (\<^verbatim>\<open>refreshContacts\<close>,
  by contrast, empties the cells together with the store.)
\<close>

lemma sim_contacts_decode:
  "secureStorage_getItem sim sim_partial_store ''google_contacts''
     = JArr [JObj [(''resourceName'', JStr ''people/c1'')]]"
proof -
  let ?plain = "''[{\"resourceName\":\"people/c1\"}]''"
  let ?key = "''sha256:Mozilla/5.0|en-US|24|1920x1080''"
  let ?c = "sim_marker @ ?key @ ?plain"
  have "JSON_parse sim ?plain = Some (JArr [JObj [(''resourceName'', JStr ''people/c1'')]])"
    by (simp add: sim_def sim_parse_def sim_documents_def simpleTokenData_def quote_def
        string_of_int_def digit_char_def)
  moreover have "AES_decrypt sim ?c ?key = Some \<lparr>sigBytes = int (length ?plain), toUtf8 = Some ?plain\<rparr>"
    by (simp add: sim_def sim_decrypt_def startsWith_def sim_marker_def)
  moreover have "\<not> startsWith ?c unencrypted_prefix"
    by (simp add: startsWith_def unencrypted_prefix_def sim_marker_def)
  ultimately have "decryptData sim ?c = JArr [JObj [(''resourceName'', JStr ''people/c1'')]]"
    by (intro decryptData_plaintext [where fkey = ?key and plain = ?plain
          and w = "\<lparr>sigBytes = int (length ?plain), toUtf8 = Some ?plain\<rparr>"])
       (simp_all add: sim_key sim_marker_def)
  then show ?thesis
    by (intro secureStorage_getItem_decrypted [where c = ?c])
       (simp_all add: sim_partial_store_def sim_no_throw sim_marker_def)
qed

lemma loadFromStorage_keeps_decoded_contacts:
  "contacts (snd (loadFromStorage sim (sim_partial_store, sim_hook)))
     = JArr [JObj [(''resourceName'', JStr ''people/c1'')]] \<and>
   isLoading (snd (loadFromStorage sim (sim_partial_store, sim_hook))) = False \<and>
   fst (loadFromStorage sim (sim_partial_store, sim_hook)) ''google_contacts'' = None"
proof -
  have groups: "secureStorage_getItem sim sim_partial_store ''google_contact_groups'' = JNull"
    by (intro secureStorage_getItem_undecodable [where raw = "''%%%''"])
       (simp_all add: sim_no_throw sim_partial_store_def sim_decrypt_short sim_parse_garbage)
  have meta: "secureStorage_getItem sim sim_partial_store ''google_contacts_metadata'' = JNull"
    by (simp add: secureStorage_getItem_def ls_getItem_def sim_no_throw sim_partial_store_def)
  have gets: "\<And>s k. \<not> getItem_throws sim s k" and removes: "\<And>s k. \<not> removeItem_throws sim s k"
    by (simp_all add: sim_no_throw)
  show ?thesis
    by (simp add: loadFromStorage_def Let_def STORAGE_KEY_CONTACTS_def STORAGE_KEY_GROUPS_def
        STORAGE_KEY_METADATA_def sim_contacts_decode groups meta undecodable_no_throw [OF gets]
        clearContactsData_no_throw [OF removes] js_to_number_def sim_hook_def)
      (simp add: sim_partial_store_def)
qed

section \<open>Labels\<close>

lemma is_system_group_prefixes:
  "is_system_group n =
     (startsWith n ''contactGroups/myContacts'' \<or> startsWith n ''contactGroups/starred'')"
  by (simp add: is_system_group_def SYSTEM_GROUP_PREFIXES_def)

lemma labels_loop_map_filter:
  "labels_loop groups ms labels = labels @ List.map_filter (spec_label groups) ms"
proof (induction ms arbitrary: labels)
  case Nil
  show ?case by simp
next
  case (Cons m ms)
  show ?case
    by (simp add: Cons.IH spec_label_def is_system_group_prefixes split: option.splits)
qed

text \<open>
  C8. For every contact and every table of groups, \<^verbatim>\<open>getContactLabels\<close> returns, in the
  order of the memberships, exactly one label for each membership that \<open>spec_label\<close>
  keeps, and nothing for the others: those whose \<^verbatim>\<open>contactGroupMembership\<close> or
  \<^verbatim>\<open>contactGroupResourceName\<close> is missing and those under the prefixes
  \<^verbatim>\<open>contactGroups/myContacts\<close> and \<^verbatim>\<open>contactGroups/starred\<close>.
\<close>

theorem getContactLabels_one_per_membership:
  "getContactLabels groups contact = List.map_filter (spec_label groups) (membership_list contact)"
  by (simp add: getContactLabels_def membership_list_def labels_loop_map_filter
      split: option.splits)

theorem getContactLabels_one_per_membership_witness:
  "getContactLabels sim_groups sim_member =
     [\<lparr>label_name = ''Friends'', label_type = Some ''group''\<rparr>,
      \<lparr>label_name = ''Group 77'', label_type = Some ''group''\<rparr>]"
  using getContactLabels_one_per_membership [of sim_groups sim_member]
  by (simp add: sim_member_def sim_contact_def membership_list_def spec_label_def
      member_of_def startsWith_def group_label_def sim_groups_def group_fallback_name_def)

section \<open>Pagination\<close>














end
